theory Spec2Isabelle
  imports Main
begin

section \<open>Strings and the standard library\<close>

text \<open>
  Python strings are modelled as \<open>string\<close>. The newline character of the
  source's \<open>"\n".join(...)\<close> is \<open>CHR 0x0A\<close>.
\<close>

definition newline :: string where
  "newline = [CHR 0x0A]"

text \<open>\<open>sep.join(xs)\<close>\<close>

fun str_join :: "string \<Rightarrow> string list \<Rightarrow> string" where
  "str_join sep [] = []"
| "str_join sep [x] = x"
| "str_join sep (x # y # ys) = x @ sep @ str_join sep (y # ys)"

text \<open>Decimal rendering of an integer, as \<open>str.format\<close> renders the port.\<close>

fun nat_digits :: "nat \<Rightarrow> string" where
  "nat_digits n =
     (if n < 10 then [char_of (48 + n)]
      else nat_digits (n div 10) @ [char_of (48 + n mod 10)])"

definition str_int :: "int \<Rightarrow> string" where
  "str_int i = (if i < 0 then CHR ''-'' # nat_digits (nat (- i)) else nat_digits (nat i))"

subsection \<open>A model of \<open>urllib.parse.urljoin\<close>\<close>

text \<open>
  The loader calls the standard library's \<open>urljoin\<close>. The functions of the
  loader take the join as a parameter \<open>urljoin\<close>, so that the general theorems
  hold for every join function. The concrete examples of the specification need
  the values of the join; \<open>py_urljoin\<close> below follows the library's text
  (\<open>urlsplit\<close>, \<open>urlparse\<close>, \<open>urlunsplit\<close>, \<open>urlunparse\<close>, \<open>urljoin\<close>
  for \<open>str\<close> arguments). The library's validation of a bracketed host in a
  network location, which raises \<open>ValueError\<close>, is not part of the model.
\<close>

definition uses_relative :: "string list" where
  "uses_relative = ['''', ''ftp'', ''http'', ''gopher'', ''nntp'', ''imap'',
     ''wais'', ''file'', ''https'', ''shttp'', ''mms'',
     ''prospero'', ''rtsp'', ''rtsps'', ''rtspu'', ''sftp'',
     ''svn'', ''svn+ssh'', ''ws'', ''wss'']"

definition uses_netloc :: "string list" where
  "uses_netloc = ['''', ''ftp'', ''http'', ''gopher'', ''nntp'', ''telnet'',
     ''imap'', ''wais'', ''file'', ''mms'', ''https'', ''shttp'',
     ''snews'', ''prospero'', ''rtsp'', ''rtsps'', ''rtspu'', ''rsync'',
     ''svn'', ''svn+ssh'', ''sftp'', ''nfs'', ''git'', ''git+ssh'',
     ''ws'', ''wss'']"

definition uses_params :: "string list" where
  "uses_params = ['''', ''ftp'', ''hdl'', ''prospero'', ''http'', ''imap'',
     ''https'', ''shttp'', ''rtsp'', ''rtsps'', ''rtspu'', ''sip'',
     ''sips'', ''mms'', ''sftp'', ''tel'']"

definition is_upper :: "char \<Rightarrow> bool" where
  "is_upper c = (65 \<le> (of_char c :: nat) \<and> (of_char c :: nat) \<le> 90)"

definition is_lower :: "char \<Rightarrow> bool" where
  "is_lower c = (97 \<le> (of_char c :: nat) \<and> (of_char c :: nat) \<le> 122)"

definition is_digit :: "char \<Rightarrow> bool" where
  "is_digit c = (48 \<le> (of_char c :: nat) \<and> (of_char c :: nat) \<le> 57)"

definition is_scheme_char :: "char \<Rightarrow> bool" where
  "is_scheme_char c = (is_lower c \<or> is_upper c \<or> is_digit c \<or> c \<in> set ''+-.'')"

definition to_lower :: "char \<Rightarrow> char" where
  "to_lower c = (if is_upper c then char_of ((of_char c :: nat) + 32) else c)"

text \<open>The C0 control characters and the space, stripped from the left of a URL.\<close>

definition is_c0_control_or_space :: "char \<Rightarrow> bool" where
  "is_c0_control_or_space c = ((of_char c :: nat) \<le> 32)"

text \<open>\<open>s.split(c)\<close>: never empty.\<close>

fun str_split :: "char \<Rightarrow> string \<Rightarrow> string list" where
  "str_split c [] = [[]]"
| "str_split c (x # xs) =
     (if x = c then [] # str_split c xs
      else (case str_split c xs of
              [] \<Rightarrow> [[x]]
            | y # ys \<Rightarrow> (x # y) # ys))"

text \<open>\<open>s.split(c, 1)\<close> of a string that contains \<open>c\<close>.\<close>

definition split_first :: "char \<Rightarrow> string \<Rightarrow> string \<times> string" where
  "split_first c s = (takeWhile (\<lambda>x. x \<noteq> c) s, tl (dropWhile (\<lambda>x. x \<noteq> c) s))"

definition splitnetloc :: "string \<Rightarrow> string \<times> string" where
  "splitnetloc url =
     (let rest = drop 2 url; is_delim = (\<lambda>x. x \<in> set ''/?#'')
      in (takeWhile (\<lambda>x. \<not> is_delim x) rest, dropWhile (\<lambda>x. \<not> is_delim x) rest))"

text \<open>The five components: scheme, netloc, path, query, fragment.\<close>

definition urlsplit :: "string \<Rightarrow> string \<Rightarrow> string \<times> string \<times> string \<times> string \<times> string" where
  "urlsplit url0 scheme0 =
     (let unsafe = (\<lambda>x. x \<in> set [CHR 0x09, CHR 0x0D, CHR 0x0A]);
          url1 = filter (\<lambda>x. \<not> unsafe x) (dropWhile is_c0_control_or_space url0);
          scheme1 = filter (\<lambda>x. \<not> unsafe x)
            (rev (dropWhile is_c0_control_or_space
              (rev (dropWhile is_c0_control_or_space scheme0))));
          pre = takeWhile (\<lambda>x. x \<noteq> CHR '':'') url1;
          has_scheme = (CHR '':'' \<in> set url1 \<and> pre \<noteq> [] \<and>
            (is_lower (hd pre) \<or> is_upper (hd pre)) \<and> list_all is_scheme_char pre);
          scheme = (if has_scheme then map to_lower pre else scheme1);
          url2 = (if has_scheme then drop (Suc (length pre)) url1 else url1);
          (netloc, url3) = (if take 2 url2 = ''//'' then splitnetloc url2 else ([], url2));
          (url4, fragment) = (if CHR ''#'' \<in> set url3 then split_first CHR ''#'' url3 else (url3, []));
          (url5, query) = (if CHR ''?'' \<in> set url4 then split_first CHR ''?'' url4 else (url4, []))
      in (scheme, netloc, url5, query, fragment))"

definition splitparams :: "string \<Rightarrow> string \<times> string" where
  "splitparams url =
     (let last_seg = rev (takeWhile (\<lambda>x. x \<noteq> CHR ''/'') (rev url));
          front = take (length url - length last_seg) url
      in if CHR '';'' \<in> set last_seg
         then (front @ takeWhile (\<lambda>x. x \<noteq> CHR '';'') last_seg,
               tl (dropWhile (\<lambda>x. x \<noteq> CHR '';'') last_seg))
         else (url, []))"

text \<open>The six components: scheme, netloc, path, params, query, fragment.\<close>

definition urlparse ::
  "string \<Rightarrow> string \<Rightarrow> string \<times> string \<times> string \<times> string \<times> string \<times> string" where
  "urlparse url scheme0 =
     (case urlsplit url scheme0 of (scheme, netloc, url', query, fragment) \<Rightarrow>
        (let (path, params) =
               (if scheme \<in> set uses_params \<and> CHR '';'' \<in> set url'
                then splitparams url' else (url', []))
         in (scheme, netloc, path, params, query, fragment)))"

definition urlunsplit :: "string \<Rightarrow> string \<Rightarrow> string \<Rightarrow> string \<Rightarrow> string \<Rightarrow> string" where
  "urlunsplit scheme netloc url0 query fragment =
     (let url1 = (if netloc \<noteq> [] \<or> (scheme \<noteq> [] \<and> scheme \<in> set uses_netloc)
                     \<or> take 2 url0 = ''//''
                  then ''//'' @ netloc @
                       (if url0 \<noteq> [] \<and> take 1 url0 \<noteq> ''/'' then ''/'' @ url0 else url0)
                  else url0);
          url2 = (if scheme \<noteq> [] then scheme @ '':'' @ url1 else url1);
          url3 = (if query \<noteq> [] then url2 @ ''?'' @ query else url2)
      in if fragment \<noteq> [] then url3 @ ''#'' @ fragment else url3)"

definition urlunparse ::
  "string \<Rightarrow> string \<Rightarrow> string \<Rightarrow> string \<Rightarrow> string \<Rightarrow> string \<Rightarrow> string" where
  "urlunparse scheme netloc url params query fragment =
     urlunsplit scheme netloc (if params \<noteq> [] then url @ '';'' @ params else url) query fragment"

text \<open>\<open>segments[1:-1] = filter(None, segments[1:-1])\<close>\<close>

fun filter_inner :: "string list \<Rightarrow> string list" where
  "filter_inner [] = []"
| "filter_inner [x] = [x]"
| "filter_inner (x # y # ys) = x # filter (\<lambda>s. s \<noteq> []) (butlast (y # ys)) @ [last (y # ys)]"

text \<open>The loop over the segments that resolves \<open>.\<close> and \<open>..\<close>.\<close>

fun resolve_segments :: "string list \<Rightarrow> string list \<Rightarrow> string list" where
  "resolve_segments resolved [] = resolved"
| "resolve_segments resolved (seg # segs) =
     (if seg = ''..'' then resolve_segments (butlast resolved) segs
      else if seg = ''.'' then resolve_segments resolved segs
      else resolve_segments (resolved @ [seg]) segs)"

definition py_urljoin :: "string \<Rightarrow> string \<Rightarrow> string" where
  "py_urljoin base url =
     (if base = [] then url
      else if url = [] then base
      else
        (case urlparse base [] of (bscheme, bnetloc, bpath, bparams, bquery, bfragment) \<Rightarrow>
        (case urlparse url bscheme of (scheme, netloc0, path, params, query, fragment) \<Rightarrow>
           if scheme \<noteq> bscheme \<or> scheme \<notin> set uses_relative then url
           else if scheme \<in> set uses_netloc \<and> netloc0 \<noteq> []
             then urlunparse scheme netloc0 path params query fragment
           else
             (let netloc = (if scheme \<in> set uses_netloc then bnetloc else netloc0)
              in if path = [] \<and> params = []
                 then urlunparse scheme netloc bpath bparams
                        (if query = [] then bquery else query) fragment
                 else
                   (let base_parts0 = str_split CHR ''/'' bpath;
                        base_parts = (if last base_parts0 \<noteq> [] then butlast base_parts0
                                      else base_parts0);
                        segments = (if take 1 path = ''/'' then str_split CHR ''/'' path
                                    else filter_inner (base_parts @ str_split CHR ''/'' path));
                        resolved0 = resolve_segments [] segments;
                        resolved = (if last segments \<in> set [''.'', ''..'']
                                    then resolved0 @ [[]] else resolved0);
                        joined = str_join ''/'' resolved
                    in urlunparse scheme netloc (if joined = [] then ''/'' else joined)
                         params query fragment)))))"

section \<open>The configuration\<close>

text \<open>A \<open>Path\<close> is the list of its components; \<open>p / name\<close> appends one.\<close>

type_synonym path = "string list"

definition MANIFEST_NAME :: string where
  "MANIFEST_NAME = ''manifest.json''"

record ViteConfig =
  hot_reload :: bool
  is_react :: bool
  static_url :: string
  static_dir :: path
  host :: string
  protocol :: string
  port :: int
  run_command :: "string list"
  build_command :: "string list"

text \<open>The defaults of the class \<open>ViteConfig\<close>; \<open>static_dir\<close> has none.\<close>

definition ViteConfig_defaults :: "path \<Rightarrow> ViteConfig" where
  "ViteConfig_defaults dir =
     \<lparr> hot_reload = False, is_react = False, static_url = ''/static/'', static_dir = dir,
       host = ''localhost'', protocol = ''http'', port = 3000,
       run_command = [''npm'', ''run'', ''dev''],
       build_command = [''npm'', ''run'', ''build''] \<rparr>"

definition manifest_path :: "ViteConfig \<Rightarrow> path" where
  "manifest_path cfg = static_dir cfg @ [MANIFEST_NAME]"

section \<open>Errors\<close>

text \<open>
  Every \<open>raise\<close> of the source is a value. A \<open>RuntimeError\<close> carries its
  arguments as the source passes them (the message template and its operands,
  never formatted) and the exception it was raised \<open>from\<close>, if any.
\<close>

datatype arg = StrArg string | PathArg path

datatype error =
    FileNotFoundError path
  | JSONDecodeError
  | RuntimeError "arg list" "error option"
  | ImproperlyConfiguredException string

section \<open>The manifest\<close>

text \<open>
  The manifest is the parsed JSON document: a dictionary from asset path to
  entry. Of an entry the loader reads \<open>file\<close> (required by the manifest
  schema), \<open>css\<close> and \<open>imports\<close>; \<open>None\<close> is a key that is absent.
\<close>

record manifest_entry =
  entry_file :: string
  entry_css :: "string list option"
  entry_imports :: "string list option"

type_synonym manifest = "string \<rightharpoonup> manifest_entry"

text \<open>A dictionary of attributes, in insertion order.\<close>

type_synonym attrs = "(string \<times> string) list"

section \<open>The asset loader\<close>

text \<open>The class attributes \<open>_instance\<close> (set or not) and \<open>_manifest\<close>.\<close>

record ViteAssetLoader =
  loader_instance :: bool
  loader_manifest :: manifest

definition ViteAssetLoader_initial :: ViteAssetLoader where
  "ViteAssetLoader_initial = \<lparr> loader_instance = False, loader_manifest = Map.empty \<rparr>"

text \<open>
  \<open>parse_manifest\<close> reads the file system \<open>fs\<close> (a missing file is \<open>None\<close>,
  and opening it raises \<open>FileNotFoundError\<close>) and parses with \<open>json_loads\<close>, the
  standard library's parser, a parameter. The file is opened and read before the
  \<open>try\<close> block; only the parser runs inside it.
\<close>

definition parse_manifest ::
  "(path \<rightharpoonup> string) \<Rightarrow> (string \<Rightarrow> error + manifest) \<Rightarrow> ViteConfig \<Rightarrow> error + manifest" where
  "parse_manifest fs json_loads cfg =
     (if \<not> hot_reload cfg then
        (case fs (manifest_path cfg) of
           None \<Rightarrow> Inl (FileNotFoundError (manifest_path cfg))
         | Some manifest_content \<Rightarrow>
             (case json_loads manifest_content of
                Inl exc \<Rightarrow> Inl (RuntimeError
                   [StrArg ''Cannot read Vite manifest file at %s'', PathArg (manifest_path cfg)]
                   (Some exc))
              | Inr manifest \<Rightarrow> Inr manifest))
      else Inr Map.empty)"

text \<open>\<open>__new__\<close>: the singleton parses the manifest when it is first created.\<close>

definition ViteAssetLoader_new ::
  "(path \<rightharpoonup> string) \<Rightarrow> (string \<Rightarrow> error + manifest) \<Rightarrow> ViteConfig \<Rightarrow>
   ViteAssetLoader \<Rightarrow> error + ViteAssetLoader" where
  "ViteAssetLoader_new fs json_loads cfg cls =
     (if \<not> loader_instance cls then
        (case parse_manifest fs json_loads cfg of
           Inl e \<Rightarrow> Inl e
         | Inr m \<Rightarrow> Inr (cls\<lparr> loader_manifest := m, loader_instance := True \<rparr>))
      else Inr cls)"

definition script_tag :: "string \<Rightarrow> attrs option \<Rightarrow> string" where
  \<open>script_tag src attrs =
     (let attrs_str = (case attrs of
                         None \<Rightarrow> []
                       | Some kvs \<Rightarrow> str_join '' '' (map (\<lambda>(key, value). key @ ''="'' @ value @ ''"'') kvs))
      in ''<script '' @ attrs_str @ '' src="'' @ src @ ''"></script>'')\<close>

definition style_tag :: "string \<Rightarrow> string" where
  \<open>style_tag href = ''<link rel="stylesheet" href="'' @ href @ ''" />''\<close>

definition vite_server_url :: "(string \<Rightarrow> string \<Rightarrow> string) \<Rightarrow> ViteConfig \<Rightarrow> string option \<Rightarrow> string" where
  "vite_server_url urljoin cfg path =
     (let base_path = protocol cfg @ ''://'' @ host cfg @ '':'' @ str_int (port cfg)
      in urljoin base_path
           (urljoin (static_url cfg) (case path of Some p \<Rightarrow> p | None \<Rightarrow> [])))"

definition generate_vite_ws_client :: "(string \<Rightarrow> string \<Rightarrow> string) \<Rightarrow> ViteConfig \<Rightarrow> string" where
  "generate_vite_ws_client urljoin cfg =
     (if \<not> hot_reload cfg then []
      else script_tag (vite_server_url urljoin cfg (Some ''@vite/client''))
             (Some [(''type'', ''module'')]))"

definition indent :: string where
  "indent = replicate 16 CHR '' ''"

definition generate_vite_react_hmr :: "(string \<Rightarrow> string \<Rightarrow> string) \<Rightarrow> ViteConfig \<Rightarrow> string" where
  \<open>generate_vite_react_hmr urljoin cfg =
     (if is_react cfg \<and> hot_reload cfg then
        newline @
        indent @ ''<script type="module">'' @ newline @
        indent @ ''import RefreshRuntime from '' @ [CHR 0x27] @
                 vite_server_url urljoin cfg None @ ''@react-refresh'' @ [CHR 0x27] @ newline @
        indent @ ''RefreshRuntime.injectIntoGlobalHook(window)'' @ newline @
        indent @ ''window.$RefreshReg$ = () => {}'' @ newline @
        indent @ ''window.$RefreshSig$ = () => (type) => type'' @ newline @
        indent @ ''window.__vite_plugin_react_preamble_installed__=true'' @ newline @
        indent @ ''</script>'' @ newline @
        indent
      else [])\<close>

definition default_attrs :: attrs where
  "default_attrs = [(''type'', ''module''), (''async'', []), (''defer'', [])]"

text \<open>\<open>if not scripts_attrs\<close>: no dictionary, or an empty one, gives the default.\<close>

definition attrs_or_default :: "attrs option \<Rightarrow> attrs" where
  "attrs_or_default scripts_attrs =
     (case scripts_attrs of None \<Rightarrow> default_attrs | Some [] \<Rightarrow> default_attrs | Some a \<Rightarrow> a)"

text \<open>
  The results of the recursive calls of a loop, in order: the first call that
  does not return (\<open>None\<close>) or raises decides the loop.
\<close>

fun collect_tags :: "(error + string) option list \<Rightarrow> (error + string list) option" where
  "collect_tags [] = Some (Inr [])"
| "collect_tags (None # rs) = None"
| "collect_tags (Some (Inl e) # rs) = Some (Inl e)"
| "collect_tags (Some (Inr t) # rs) =
     (case collect_tags rs of
        None \<Rightarrow> None
      | Some (Inl e) \<Rightarrow> Some (Inl e)
      | Some (Inr ts) \<Rightarrow> Some (Inr (t # ts)))"

text \<open>
  \<open>generate_vite_asset\<close> calls itself for every import. The first argument
  after the manifest bounds the depth of the calls: \<open>None\<close> is a call whose
  expansion is deeper than the bound.
\<close>

fun generate_vite_asset ::
  "(string \<Rightarrow> string \<Rightarrow> string) \<Rightarrow> ViteConfig \<Rightarrow> manifest \<Rightarrow> nat \<Rightarrow> string \<Rightarrow> attrs option \<Rightarrow>
   (error + string) option" where
  "generate_vite_asset urljoin cfg m 0 path scripts_attrs = None"
| "generate_vite_asset urljoin cfg m (Suc depth) path scripts_attrs =
     (if hot_reload cfg then
        Some (Inr (script_tag (vite_server_url urljoin cfg (Some path)) (Some default_attrs)))
      else
        (case m path of
           None \<Rightarrow> Some (Inl (RuntimeError
              [StrArg ''Cannot find %s in Vite manifest at %s'', StrArg path,
               PathArg (manifest_path cfg)] None))
         | Some manifest_entry \<Rightarrow>
             (let scripts_attrs' = attrs_or_default scripts_attrs;
                  css_tags = (case entry_css manifest_entry of
                                None \<Rightarrow> []
                              | Some css \<Rightarrow>
                                  map (\<lambda>css_path. style_tag (urljoin (static_url cfg) css_path)) css);
                  vendor = (case entry_imports manifest_entry of
                              None \<Rightarrow> []
                            | Some imports \<Rightarrow>
                                map (\<lambda>vendor_path.
                                  generate_vite_asset urljoin cfg m depth vendor_path
                                    (Some scripts_attrs')) imports)
              in (case collect_tags vendor of
                    None \<Rightarrow> None
                  | Some (Inl e) \<Rightarrow> Some (Inl e)
                  | Some (Inr vendor_tags) \<Rightarrow>
                      Some (Inr (str_join newline
                        (css_tags @ vendor_tags @
                         [script_tag (urljoin (static_url cfg) (entry_file manifest_entry))
                            (Some scripts_attrs')])))))))"

text \<open>
  A call of the method on the loader: the result, and the loader after the call.
  The method reads \<open>_manifest\<close> and assigns nothing.
\<close>

definition generate_vite_asset_call ::
  "(string \<Rightarrow> string \<Rightarrow> string) \<Rightarrow> ViteConfig \<Rightarrow> ViteAssetLoader \<Rightarrow> nat \<Rightarrow> string \<Rightarrow> attrs option \<Rightarrow>
   ((error + string) \<times> ViteAssetLoader) option" where
  "generate_vite_asset_call urljoin cfg self depth path scripts_attrs =
     map_option (\<lambda>r. (r, self))
       (generate_vite_asset urljoin cfg (loader_manifest self) depth path scripts_attrs)"

subsection \<open>The tags of an asset, as the specification lists them\<close>




subsection \<open>The imports graph\<close>





section \<open>The template engine\<close>

text \<open>
  \<open>hmr_client\<close> joins the two tags of the loader; \<open>Markup\<close> marks the
  string as safe and leaves its characters as they are.
\<close>

definition hmr_client :: "(string \<Rightarrow> string \<Rightarrow> string) \<Rightarrow> ViteConfig \<Rightarrow> string" where
  "hmr_client urljoin cfg =
     str_join newline [generate_vite_react_hmr urljoin cfg, generate_vite_ws_client urljoin cfg]"

section \<open>The template configuration\<close>

text \<open>
  \<open>directory\<close> is a path, a list of paths or \<open>None\<close>; a path is a string or
  a path object. \<open>not directory\<close> holds of \<open>None\<close>, of the empty string and of the
  empty list.
\<close>

datatype pathtype = StrPath string | PathObj path

datatype directory = DirNone | DirOne pathtype | DirList "pathtype list"

fun directory_given :: "directory \<Rightarrow> bool" where
  "directory_given DirNone = False"
| "directory_given (DirOne (StrPath s)) = (s \<noteq> [])"
| "directory_given (DirOne (PathObj p)) = True"
| "directory_given (DirList ds) = (ds \<noteq> [])"

text \<open>
  The engine is an instance, or a class: its constructor, which builds an
  instance from the directory in the world \<open>'w\<close> (everything the constructor
  and the callback can change) or raises.
\<close>

datatype ('e, 'w) engine_ref =
    EngineClass "directory \<Rightarrow> 'w \<Rightarrow> error + ('e \<times> 'w)"
  | EngineInstance 'e

fun isclass :: "('e, 'w) engine_ref \<Rightarrow> bool" where
  "isclass (EngineClass ctor) = True"
| "isclass (EngineInstance e) = False"

text \<open>
  The fields of the dataclass, and the slot that \<open>cached_property\<close> fills in the
  object on the first access of \<open>engine_instance\<close>.
\<close>

record ('e, 'w) ViteTemplateConfig =
  engine :: "('e, 'w) engine_ref"
  config :: ViteConfig
  directory :: directory
  engine_callback :: "('e \<Rightarrow> 'w \<Rightarrow> error + 'w) option"
  engine_instance_cache :: "'e option"

definition post_init :: "('e, 'w) ViteTemplateConfig \<Rightarrow> error + ('e, 'w) ViteTemplateConfig" where
  "post_init self =
     (if isclass (engine self) \<and> \<not> directory_given (directory self)
      then Inl (ImproperlyConfiguredException
                  ''directory is a required kwarg when passing a template engine class'')
      else Inr self)"

text \<open>The constructor of the dataclass: the fields, then \<open>__post_init__\<close>.\<close>

definition ViteTemplateConfig_init ::
  "('e, 'w) engine_ref \<Rightarrow> ViteConfig \<Rightarrow> directory \<Rightarrow> ('e \<Rightarrow> 'w \<Rightarrow> error + 'w) option \<Rightarrow>
   error + ('e, 'w) ViteTemplateConfig" where
  "ViteTemplateConfig_init eng cfg dir cb =
     post_init \<lparr> engine = eng, config = cfg, directory = dir, engine_callback = cb,
                 engine_instance_cache = None \<rparr>"



section \<open>Example inputs\<close>

text \<open>The configuration with the defaults of the source, and its hot-reload variant.\<close>

definition production_config :: ViteConfig where
  "production_config = ViteConfig_defaults [''static'']"


text \<open>The manifest of the specification's example.\<close>

definition example_manifest :: manifest where
  "example_manifest = [''main.js'' \<mapsto>
     \<lparr> entry_file = ''assets/main.123.js'', entry_css = Some [''assets/main.css''],
       entry_imports = None \<rparr>]"



text \<open>
  A template configuration in a world that counts the engines constructed and
  records the engines the callback was called with; an engine is its number.
\<close>

type_synonym world = "nat \<times> nat list"

definition counting_engine :: "(nat, world) engine_ref" where
  "counting_engine = EngineClass (\<lambda>dir w. Inr (fst w, (Suc (fst w), snd w)))"

definition logging_callback :: "nat \<Rightarrow> world \<Rightarrow> error + world" where
  "logging_callback e w = Inr (fst w, snd w @ [e])"

definition example_template_config :: "(nat, world) ViteTemplateConfig" where
  "example_template_config =
     \<lparr> engine = counting_engine, config = production_config,
       directory = DirOne (StrPath ''templates''),
       engine_callback = Some logging_callback, engine_instance_cache = None \<rparr>"

section \<open>Values of the join\<close>

lemma py_urljoin_main_css:
  "py_urljoin ''/static/'' ''assets/main.css'' = ''/static/assets/main.css''"
  by code_simp

lemma py_urljoin_main_js:
  "py_urljoin ''/static/'' ''assets/main.123.js'' = ''/static/assets/main.123.js''"
  by code_simp





text \<open>So is a base whose path ends in a \<open>..\<close> segment.\<close>

lemma py_urljoin_dot_segments:
  "py_urljoin ''http://localhost:3000'' (py_urljoin ''/a/..'' ''x'') = ''http://localhost:3000/a/x''"
  "py_urljoin (py_urljoin ''http://localhost:3000'' ''/a/..'') ''x'' = ''http://localhost:3000/x''"
  by code_simp+

section \<open>Joining strings\<close>





section \<open>The results of a loop\<close>







section \<open>Manifest mode\<close>
















text \<open>
  C2: with \<open>hot_reload\<close> off and the static URL \<open>/static/\<close>, the manifest of the
  example gives for \<open>main.js\<close>, without attribute overrides, the stylesheet link,
  a newline and the script tag.
\<close>

theorem generate_vite_asset_example:
  \<open>generate_vite_asset py_urljoin (cfg\<lparr> hot_reload := False, static_url := ''/static/'' \<rparr>)
     example_manifest (Suc depth) ''main.js'' None
   = Some (Inr (''<link rel="stylesheet" href="/static/assets/main.css" />'' @ [CHR 0x0A] @
        ''<script type="module" async="" defer="" src="/static/assets/main.123.js"></script>''))\<close>
  by (simp add: example_manifest_def attrs_or_default_def default_attrs_def style_tag_def
      script_tag_def newline_def py_urljoin_main_css py_urljoin_main_js)

section \<open>Hot reload\<close>




section \<open>A path that is not in the manifest\<close>

text \<open>
  C5: with hot reload off, a call for a path that is not a key of the manifest
  raises the not-found \<open>RuntimeError\<close>: there is no tag, and the loader after the
  call is the loader before it.
\<close>

theorem generate_vite_asset_not_found:
  "\<not> hot_reload cfg \<Longrightarrow> loader_manifest self path = None \<Longrightarrow>
   generate_vite_asset_call urljoin cfg self (Suc depth) path scripts_attrs
   = Some (Inl (RuntimeError
        [StrArg ''Cannot find %s in Vite manifest at %s'', StrArg path,
         PathArg (manifest_path cfg)] None), self)"
  by (simp add: generate_vite_asset_call_def)

theorem generate_vite_asset_not_found_witness:
  "generate_vite_asset_call py_urljoin production_config
     \<lparr> loader_instance = True, loader_manifest = example_manifest \<rparr> 1 ''missing.js'' None
   = Some (Inl (RuntimeError
        [StrArg ''Cannot find %s in Vite manifest at %s'', StrArg ''missing.js'',
         PathArg [''static'', ''manifest.json'']] None),
      \<lparr> loader_instance = True, loader_manifest = example_manifest \<rparr>)"
  using generate_vite_asset_not_found [of production_config
      "\<lparr> loader_instance = True, loader_manifest = example_manifest \<rparr>" "''missing.js''"
      py_urljoin 0 None]
  by (simp add: production_config_def ViteConfig_defaults_def example_manifest_def
      manifest_path_def MANIFEST_NAME_def)

section \<open>Termination of the expansion\<close>





subsection \<open>Cycles\<close>













section \<open>The hot-module-reload tags\<close>



text \<open>
  C10: \<open>hmr_client\<close> returns the react-refresh tag, one newline character and
  the dev-client tag; without hot reload both tags are empty and the result is
  the string of the newline alone, not the empty string.
\<close>

theorem hmr_client_newline_join:
  "hmr_client urljoin cfg
     = generate_vite_react_hmr urljoin cfg @ [CHR 0x0A] @ generate_vite_ws_client urljoin cfg
   \<and> (\<not> hot_reload cfg \<longrightarrow> hmr_client urljoin cfg = [CHR 0x0A])"
  by (simp add: hmr_client_def newline_def generate_vite_ws_client_def
      generate_vite_react_hmr_def)

theorem hmr_client_newline_join_witness:
  "\<not> hot_reload production_config \<and> hmr_client py_urljoin production_config = [CHR 0x0A]"
  using hmr_client_newline_join [of py_urljoin production_config, THEN conjunct2]
  by (simp add: production_config_def ViteConfig_defaults_def)

section \<open>Loading the manifest\<close>

text \<open>
  With hot reload on no file is read; a file that does not parse raises a
  \<open>RuntimeError\<close> from the parser's exception; a file that parses is returned.
\<close>

lemma parse_manifest_hot_reload:
  "hot_reload cfg \<Longrightarrow> parse_manifest fs json_loads cfg = Inr Map.empty"
  by (simp add: parse_manifest_def)

lemma parse_manifest_invalid_json:
  "\<not> hot_reload cfg \<Longrightarrow> fs (manifest_path cfg) = Some content \<Longrightarrow>
   json_loads content = Inl exc \<Longrightarrow>
   parse_manifest fs json_loads cfg
   = Inl (RuntimeError [StrArg ''Cannot read Vite manifest file at %s'',
            PathArg (manifest_path cfg)] (Some exc))"
  by (simp add: parse_manifest_def)

lemma parse_manifest_parsed:
  "\<not> hot_reload cfg \<Longrightarrow> fs (manifest_path cfg) = Some content \<Longrightarrow>
   json_loads content = Inr manifest \<Longrightarrow>
   parse_manifest fs json_loads cfg = Inr manifest"
  by (simp add: parse_manifest_def)

text \<open>
  C3: with hot reload off and no manifest file, \<open>parse_manifest\<close> raises the
  \<open>FileNotFoundError\<close> of the file system itself: the file is opened outside the
  \<open>try\<close> block, so the error is not wrapped in a \<open>RuntimeError\<close>. The first
  creation of the loader raises the same error.
\<close>

theorem parse_manifest_missing_file:
  "parse_manifest Map.empty json_loads (ViteConfig_defaults dir)
     = Inl (FileNotFoundError (dir @ [''manifest.json'']))
   \<and> ViteAssetLoader_new Map.empty json_loads (ViteConfig_defaults dir) ViteAssetLoader_initial
     = Inl (FileNotFoundError (dir @ [''manifest.json'']))"
  by (simp add: parse_manifest_def ViteAssetLoader_new_def ViteAssetLoader_initial_def
      ViteConfig_defaults_def manifest_path_def MANIFEST_NAME_def)

section \<open>Constructing the template configuration\<close>

text \<open>
  C8: constructing a \<open>ViteTemplateConfig\<close> with an engine class and no directory
  raises \<open>ImproperlyConfiguredException\<close>; with an engine instance, or with a
  class and a directory that is not empty, the object is constructed.
\<close>

theorem ViteTemplateConfig_init_directory:
  "(isclass eng \<longrightarrow>
      ViteTemplateConfig_init eng cfg DirNone cb
      = Inl (ImproperlyConfiguredException
               ''directory is a required kwarg when passing a template engine class''))
   \<and> (\<not> isclass eng \<or> directory_given dir \<longrightarrow>
      ViteTemplateConfig_init eng cfg dir cb
      = Inr \<lparr> engine = eng, config = cfg, directory = dir, engine_callback = cb,
              engine_instance_cache = None \<rparr>)"
  by (auto simp add: ViteTemplateConfig_init_def post_init_def)

theorem ViteTemplateConfig_init_directory_witness:
  "ViteTemplateConfig_init counting_engine production_config DirNone (Some logging_callback)
     = Inl (ImproperlyConfiguredException
              ''directory is a required kwarg when passing a template engine class'')
   \<and> ViteTemplateConfig_init counting_engine production_config (DirOne (StrPath ''templates''))
       (Some logging_callback) = Inr example_template_config
   \<and> (\<exists>c. ViteTemplateConfig_init (EngineInstance (7::nat)) production_config DirNone
       (Some logging_callback) = Inr c)"
  using ViteTemplateConfig_init_directory [of counting_engine production_config
      "Some logging_callback" "DirOne (StrPath ''templates'')"]
    ViteTemplateConfig_init_directory [of "EngineInstance (7::nat)" production_config
      "Some logging_callback" DirNone]
  by (simp add: counting_engine_def example_template_config_def)




end
